theory Spec2Isabelle
  imports Complex_Main
begin

section \<open>Messages, effects and the world seen by a callback\<close>

text \<open>
  \<^verbatim>\<open>sensor_msgs::msg::Image\<close>: the header (time stamp in nanoseconds, frame id) and the
  image fields. \<open>make_Image\<close> is the value-initialised message that
  \<^verbatim>\<open>std::make_unique<sensor_msgs::msg::Image>()\<close> allocates.
\<close>

record Image =
  stamp :: nat
  frame_id :: string
  height :: nat
  width :: nat
  encoding :: string
  is_bigendian :: nat
  step :: nat
  data :: "nat list"

definition make_Image :: Image where
  "make_Image = \<lparr>stamp = 0, frame_id = [], height = 0, width = 0, encoding = [],
     is_bigendian = 0, step = 0, data = []\<rparr>"

text \<open>
  What a callback does to the outside is recorded in order: a blocking
  \<^verbatim>\<open>rclcpp::sleep_for\<close> of so many milliseconds, or a \<^verbatim>\<open>publish\<close> of a message on
  the topic the publisher was created for.
\<close>

datatype effect = SleepFor int | Publish string Image

text \<open>
  The world a callback runs in: \<open>draws\<close> is the sequence of values that the static
  \<^verbatim>\<open>dist(engine)\<close> of \<^verbatim>\<open>lognormal_distribution\<close> returns, \<open>used\<close> counts how many of
  them have been taken, \<open>clock\<close> is the node clock in nanoseconds and \<open>trace\<close> the
  effects so far. \<open>sleep_for\<close> moves the clock on by the time asked for (by nothing
  when that is negative); \<open>publish\<close> only adds to the trace, delivery to subscribers
  being the middleware's part.
\<close>

record world =
  draws :: "nat \<Rightarrow> real"
  used :: nat
  clock :: nat
  trace :: "effect list"

definition now :: "world \<Rightarrow> nat" where
  "now w = clock w"

definition sleep_for :: "int \<Rightarrow> world \<Rightarrow> world" where
  "sleep_for d w = w\<lparr>clock := clock w + nat d * 1000000, trace := trace w @ [SleepFor d]\<rparr>"

definition publish :: "string \<Rightarrow> Image \<Rightarrow> world \<Rightarrow> world" where
  "publish t m w = w\<lparr>trace := trace w @ [Publish t m]\<rparr>"

fun published :: "effect list \<Rightarrow> (string \<times> Image) list" where
  "published [] = []"
| "published (SleepFor d # es) = published es"
| "published (Publish t m # es) = (t, m) # published es"

fun sleeps :: "effect list \<Rightarrow> int list" where
  "sleeps [] = []"
| "sleeps (SleepFor d # es) = d # sleeps es"
| "sleeps (Publish t m # es) = sleeps es"

section \<open>The latency sampler\<close>

text \<open>
  \<^verbatim>\<open>int sleep_ms = std::min(dist(engine), max_latency_ms);\<close> The minimum is taken on
  doubles; initialising an \<^verbatim>\<open>int\<close> from it drops the fraction (rounds toward zero).
  The function returns \<^verbatim>\<open>std::chrono::milliseconds(sleep_ms)\<close>, here the count of
  milliseconds.
\<close>

definition max_latency_ms :: real where
  "max_latency_ms = 150"

definition double_to_int :: "real \<Rightarrow> int" where
  "double_to_int x = (if 0 \<le> x then \<lfloor>x\<rfloor> else \<lceil>x\<rceil>)"

definition lognormal_distribution :: "world \<Rightarrow> int \<times> world" where
  "lognormal_distribution w =
     (let x = draws w (used w);
          sleep_ms = double_to_int (min x max_latency_ms)
      in (sleep_ms, w\<lparr>used := Suc (used w)\<rparr>))"

section \<open>The node classes\<close>

text \<open>
  Each class is a record of its members: the node name, the topic of each publisher and
  subscription it creates, the timer period in milliseconds, and \<open>msg\<close> for the member
  \<^verbatim>\<open>sensor_msgs::msg::Image::UniquePtr msg_\<close> (\<open>None\<close> is the null pointer). The
  constructor functions take the arguments in the order of the C++ constructors. A
  callback takes the node and the world and returns both as it leaves them.
\<close>

subsection \<open>TimerDependencyNode\<close>

record TimerDependencyNode =
  td_name :: string
  td_pub :: string
  td_sub :: string
  td_msg :: "Image option"
  td_timer :: int

definition new_TimerDependencyNode ::
  "string \<Rightarrow> string \<Rightarrow> string \<Rightarrow> int \<Rightarrow> TimerDependencyNode" where
  "new_TimerDependencyNode node_name sub_topic_name pub_topic_name period_ms =
     \<lparr>td_name = node_name, td_pub = pub_topic_name, td_sub = sub_topic_name,
      td_msg = None, td_timer = period_ms\<rparr>"

definition TimerDependencyNode_sub_callback ::
  "Image \<Rightarrow> TimerDependencyNode \<Rightarrow> world \<Rightarrow> TimerDependencyNode \<times> world" where
  "TimerDependencyNode_sub_callback msg n w =
     (case lognormal_distribution w of (d, w1) \<Rightarrow>
        (n\<lparr>td_msg := Some msg\<rparr>, sleep_for d w1))"

definition TimerDependencyNode_timer_callback ::
  "TimerDependencyNode \<Rightarrow> world \<Rightarrow> TimerDependencyNode \<times> world" where
  "TimerDependencyNode_timer_callback n w =
     (case lognormal_distribution w of (d, w1) \<Rightarrow>
        (case td_msg n of
           Some m \<Rightarrow> (n, publish (td_pub n) m (sleep_for d w1))
         | None \<Rightarrow> (n, sleep_for d w1)))"

subsection \<open>ActuatorDummy\<close>

record ActuatorDummy =
  ad_name :: string
  ad_sub :: string

definition new_ActuatorDummy :: "string \<Rightarrow> string \<Rightarrow> ActuatorDummy" where
  "new_ActuatorDummy node_name sub_topic_name =
     \<lparr>ad_name = node_name, ad_sub = sub_topic_name\<rparr>"

definition ActuatorDummy_sub_callback ::
  "Image \<Rightarrow> ActuatorDummy \<Rightarrow> world \<Rightarrow> ActuatorDummy \<times> world" where
  "ActuatorDummy_sub_callback msg n w = (n, w)"

subsection \<open>NoDependencyNode\<close>

record NoDependencyNode =
  nd_name :: string
  nd_pub :: string
  nd_sub :: string

definition new_NoDependencyNode :: "string \<Rightarrow> string \<Rightarrow> string \<Rightarrow> NoDependencyNode" where
  "new_NoDependencyNode node_name sub_topic_name pub_topic_name =
     \<lparr>nd_name = node_name, nd_pub = pub_topic_name, nd_sub = sub_topic_name\<rparr>"

definition NoDependencyNode_sub_callback ::
  "Image \<Rightarrow> NoDependencyNode \<Rightarrow> world \<Rightarrow> NoDependencyNode \<times> world" where
  "NoDependencyNode_sub_callback msg n w =
     (case lognormal_distribution w of (d, w1) \<Rightarrow>
        (n, publish (nd_pub n) msg (sleep_for d w1)))"

subsection \<open>SubDependencyNode\<close>

text \<open>
  The first subscription's callback fills a temporary message with the stamp of the one
  it received and never uses the temporary again; what it stores is the received
  message. The second subscription's callback ignores its own message and hands the
  stored one to \<^verbatim>\<open>publish(std::move(msg_))\<close>, whose parameter is a
  \<^verbatim>\<open>std::unique_ptr\<close> taken by value: the member is null afterwards.
\<close>

record SubDependencyNode =
  sd_name :: string
  sd_pub :: string
  sd_sub1 :: string
  sd_sub2 :: string
  sd_msg :: "Image option"

definition new_SubDependencyNode ::
  "string \<Rightarrow> string \<Rightarrow> string \<Rightarrow> string \<Rightarrow> SubDependencyNode" where
  "new_SubDependencyNode node_name sub_topic_name subsequent_sub_topic_name pub_topic_name =
     \<lparr>sd_name = node_name, sd_pub = pub_topic_name, sd_sub1 = sub_topic_name,
      sd_sub2 = subsequent_sub_topic_name, sd_msg = None\<rparr>"

definition SubDependencyNode_sub1_callback ::
  "Image \<Rightarrow> SubDependencyNode \<Rightarrow> world \<Rightarrow> SubDependencyNode \<times> world" where
  "SubDependencyNode_sub1_callback msg n w =
     (let msg_tmp = make_Image\<lparr>stamp := stamp msg\<rparr> in
      case lognormal_distribution w of (d, w1) \<Rightarrow>
        (n\<lparr>sd_msg := Some msg\<rparr>, sleep_for d w1))"

definition SubDependencyNode_sub2_callback ::
  "Image \<Rightarrow> SubDependencyNode \<Rightarrow> world \<Rightarrow> SubDependencyNode \<times> world" where
  "SubDependencyNode_sub2_callback msg n w =
     (case lognormal_distribution w of (d, w1) \<Rightarrow>
        (case sd_msg n of
           Some m \<Rightarrow> (n\<lparr>sd_msg := None\<rparr>, publish (sd_pub n) m (sleep_for d w1))
         | None \<Rightarrow> (n, sleep_for d w1)))"

subsection \<open>SensorDummy\<close>

record SensorDummy =
  se_name :: string
  se_pub :: string
  se_timer :: int

definition new_SensorDummy :: "string \<Rightarrow> string \<Rightarrow> int \<Rightarrow> SensorDummy" where
  "new_SensorDummy node_name topic_name period_ms =
     \<lparr>se_name = node_name, se_pub = topic_name, se_timer = period_ms\<rparr>"

definition SensorDummy_callback :: "SensorDummy \<Rightarrow> world \<Rightarrow> SensorDummy \<times> world" where
  "SensorDummy_callback n w =
     (let msg = make_Image\<lparr>stamp := now w\<rparr> in (n, publish (se_pub n) msg w))"

section \<open>Dispatch of one node's callbacks\<close>

text \<open>
  The executor calls a node's callbacks as its timer fires and as messages arrive. The
  callbacks of one node are taken here one after the other, each running to its end
  before the next starts; the list of events is the order in which they ran.
\<close>

datatype TimerDependencyNode_event = TD_sub Image | TD_timer

fun TimerDependencyNode_dispatch ::
  "TimerDependencyNode_event \<Rightarrow> TimerDependencyNode \<times> world \<Rightarrow> TimerDependencyNode \<times> world" where
  "TimerDependencyNode_dispatch (TD_sub msg) (n, w) = TimerDependencyNode_sub_callback msg n w"
| "TimerDependencyNode_dispatch TD_timer (n, w) = TimerDependencyNode_timer_callback n w"

fun TimerDependencyNode_spin ::
  "TimerDependencyNode_event list \<Rightarrow> TimerDependencyNode \<times> world \<Rightarrow> TimerDependencyNode \<times> world" where
  "TimerDependencyNode_spin [] s = s"
| "TimerDependencyNode_spin (e # es) s = TimerDependencyNode_spin es (TimerDependencyNode_dispatch e s)"

datatype SubDependencyNode_event = SD_sub1 Image | SD_sub2 Image

fun SubDependencyNode_dispatch ::
  "SubDependencyNode_event \<Rightarrow> SubDependencyNode \<times> world \<Rightarrow> SubDependencyNode \<times> world" where
  "SubDependencyNode_dispatch (SD_sub1 msg) (n, w) = SubDependencyNode_sub1_callback msg n w"
| "SubDependencyNode_dispatch (SD_sub2 msg) (n, w) = SubDependencyNode_sub2_callback msg n w"

fun SubDependencyNode_spin ::
  "SubDependencyNode_event list \<Rightarrow> SubDependencyNode \<times> world \<Rightarrow> SubDependencyNode \<times> world" where
  "SubDependencyNode_spin [] s = s"
| "SubDependencyNode_spin (e # es) s = SubDependencyNode_spin es (SubDependencyNode_dispatch e s)"

text \<open>
  Two event sequences of a SubDependencyNode agree up to the trigger messages when they
  have the same events in the same order and differ at most in the messages that arrive
  on the second subscription.
\<close>

fun same_but_trigger :: "SubDependencyNode_event \<Rightarrow> SubDependencyNode_event \<Rightarrow> bool" where
  "same_but_trigger (SD_sub1 a) (SD_sub1 b) = (a = b)"
| "same_but_trigger (SD_sub2 a) (SD_sub2 b) = True"
| "same_but_trigger (SD_sub1 a) (SD_sub2 b) = False"
| "same_but_trigger (SD_sub2 a) (SD_sub1 b) = False"

section \<open>The process entry point\<close>

text \<open>
  \<open>nodes\<close> is the vector that \<^verbatim>\<open>main\<close> fills, in the order of its
  \<^verbatim>\<open>emplace_back\<close> calls; every element is added to the executor. The functions below
  read off a node what its constructor created.
\<close>

datatype Node =
    Actuator ActuatorDummy
  | NoDependency NoDependencyNode
  | SubDependency SubDependencyNode
  | TimerDependency TimerDependencyNode
  | Sensor SensorDummy

definition nodes :: "Node list" where
  "nodes =
     [Actuator (new_ActuatorDummy ''actuator_dummy_node'' ''/topic4''),
      NoDependency (new_NoDependencyNode ''filter_node'' ''/topic1'' ''/topic2''),
      SubDependency (new_SubDependencyNode ''message_driven_node'' ''/topic2'' ''/drive'' ''/topic3''),
      TimerDependency (new_TimerDependencyNode ''timer_driven_node'' ''/topic3'' ''/topic4'' 100),
      Sensor (new_SensorDummy ''sensor_dummy_node'' ''/topic1'' 50),
      Sensor (new_SensorDummy ''drive_node'' ''/drive'' 100)]"

fun node_name :: "Node \<Rightarrow> string" where
  "node_name (Actuator n) = ad_name n"
| "node_name (NoDependency n) = nd_name n"
| "node_name (SubDependency n) = sd_name n"
| "node_name (TimerDependency n) = td_name n"
| "node_name (Sensor n) = se_name n"

fun publications :: "Node \<Rightarrow> string list" where
  "publications (Actuator n) = []"
| "publications (NoDependency n) = [nd_pub n]"
| "publications (SubDependency n) = [sd_pub n]"
| "publications (TimerDependency n) = [td_pub n]"
| "publications (Sensor n) = [se_pub n]"

fun subscriptions :: "Node \<Rightarrow> string list" where
  "subscriptions (Actuator n) = [ad_sub n]"
| "subscriptions (NoDependency n) = [nd_sub n]"
| "subscriptions (SubDependency n) = [sd_sub1 n, sd_sub2 n]"
| "subscriptions (TimerDependency n) = [td_sub n]"
| "subscriptions (Sensor n) = []"

fun timer_period :: "Node \<Rightarrow> int option" where
  "timer_period (Actuator n) = None"
| "timer_period (NoDependency n) = None"
| "timer_period (SubDependency n) = None"
| "timer_period (TimerDependency n) = Some (td_timer n)"
| "timer_period (Sensor n) = Some (se_timer n)"

definition publishers_of :: "string \<Rightarrow> Node list \<Rightarrow> string list" where
  "publishers_of t ns = map node_name (filter (\<lambda>n. t \<in> set (publications n)) ns)"

definition subscribers_of :: "string \<Rightarrow> Node list \<Rightarrow> string list" where
  "subscribers_of t ns = map node_name (filter (\<lambda>n. t \<in> set (subscriptions n)) ns)"

definition timers_of :: "Node list \<Rightarrow> (string \<times> int) list" where
  "timers_of ns =
     concat (map (\<lambda>n. case timer_period n of None \<Rightarrow> [] | Some p \<Rightarrow> [(node_name n, p)]) ns)"

text \<open>
  \<^verbatim>\<open>executor->spin()\<close> returns only once the context has been shut down from outside.
  The argument says whether that happens; \<open>None\<close> is a process that never leaves
  \<^verbatim>\<open>spin\<close>. After \<^verbatim>\<open>spin\<close> the function calls \<^verbatim>\<open>rclcpp::shutdown()\<close> and returns 0.
\<close>

definition main :: "bool \<Rightarrow> int option" where
  "main shutdown_requested = (if shutdown_requested then Some 0 else None)"

section \<open>Concrete inputs\<close>

text \<open>
  Three messages, a world in which every draw of the engine is 3.7 (so every sampled
  latency is 3 ms), and the two stateful nodes as \<^verbatim>\<open>main\<close> constructs them.
\<close>

definition m0 :: Image where
  "m0 = make_Image\<lparr>stamp := 7\<rparr>"

definition m1 :: Image where
  "m1 = make_Image\<lparr>stamp := 8, data := [1, 2]\<rparr>"

definition m2 :: Image where
  "m2 = make_Image\<lparr>stamp := 9, data := [3]\<rparr>"

definition w0 :: world where
  "w0 = \<lparr>draws = (\<lambda>i. 37 / 10), used = 0, clock = 0, trace = []\<rparr>"

definition td0 :: TimerDependencyNode where
  "td0 = new_TimerDependencyNode ''timer_driven_node'' ''/topic3'' ''/topic4'' 100"

definition sd0 :: SubDependencyNode where
  "sd0 = new_SubDependencyNode ''message_driven_node'' ''/topic2'' ''/drive'' ''/topic3''"

section \<open>Properties\<close>

lemma published_append: "published (xs @ ys) = published xs @ published ys"
  by (induction xs rule: published.induct) simp_all

lemma sleeps_append: "sleeps (xs @ ys) = sleeps xs @ sleeps ys"
  by (induction xs rule: sleeps.induct) simp_all

text \<open>
  C3 (as amended). A log-normal draw is a positive number. The sampler returns a whole
  number of milliseconds between 0 and 150, both included: a draw below 1 is truncated
  to 0 ms.
\<close>

theorem lognormal_distribution_bounds:
  assumes "0 < draws w (used w)"
  shows "0 \<le> fst (lognormal_distribution w) \<and> fst (lognormal_distribution w) \<le> 150"
proof -
  let ?x = "min (draws w (used w)) max_latency_ms"
  have pos: "0 \<le> ?x" using assms by (simp add: max_latency_ms_def)
  have "?x \<le> 150" by (simp add: max_latency_ms_def)
  then have "\<lfloor>?x\<rfloor> \<le> 150" by linarith
  moreover have "0 \<le> \<lfloor>?x\<rfloor>" using pos by simp
  ultimately show ?thesis
    using pos by (simp add: lognormal_distribution_def double_to_int_def Let_def)
qed

theorem lognormal_distribution_bounds_witness:
  "0 < draws \<lparr>draws = (\<lambda>i. 1000), used = 0, clock = 0, trace = []\<rparr> 0
   \<and> fst (lognormal_distribution \<lparr>draws = (\<lambda>i. 1000), used = 0, clock = 0, trace = []\<rparr>) = 150"
  using lognormal_distribution_bounds [of "\<lparr>draws = (\<lambda>i. 1000), used = 0, clock = 0, trace = []\<rparr>"]
  by (simp add: lognormal_distribution_def double_to_int_def max_latency_ms_def Let_def)

text \<open>
  C3 (as stated) fails: the draw 0.5 is positive, and the sampler returns 0 ms, which
  is not strictly positive.
\<close>

theorem lognormal_distribution_zero_counterexample:
  "0 < draws \<lparr>draws = (\<lambda>i. 1 / 2), used = 0, clock = 0, trace = []\<rparr> 0
   \<and> \<not> 0 < fst (lognormal_distribution \<lparr>draws = (\<lambda>i. 1 / 2), used = 0, clock = 0, trace = []\<rparr>)"
  by (simp add: lognormal_distribution_def double_to_int_def max_latency_ms_def Let_def)


section \<open>Facts about the callbacks\<close>

lemma TimerDependencyNode_spin_append:
  "TimerDependencyNode_spin (xs @ ys) s =
     TimerDependencyNode_spin ys (TimerDependencyNode_spin xs s)"
  by (induction xs arbitrary: s) simp_all

lemma trace_lognormal_distribution [simp]:
  "trace (snd (lognormal_distribution w)) = trace w"
  by (simp add: lognormal_distribution_def Let_def)

lemma used_lognormal_distribution [simp]:
  "used (snd (lognormal_distribution w)) = Suc (used w)"
  by (simp add: lognormal_distribution_def Let_def)

lemma published_sleep_for [simp]: "published (trace (sleep_for d w)) = published (trace w)"
  by (simp add: sleep_for_def published_append)

lemma published_publish [simp]:
  "published (trace (publish t m w)) = published (trace w) @ [(t, m)]"
  by (simp add: publish_def published_append)

lemma lognormal_distribution_example:
  "draws w = (\<lambda>i. 37 / 10) \<Longrightarrow> lognormal_distribution w = (3, w\<lparr>used := Suc (used w)\<rparr>)"
  by (simp add: lognormal_distribution_def double_to_int_def max_latency_ms_def Let_def)

lemma timer_callback_Some:
  "td_msg n = Some m \<Longrightarrow>
   TimerDependencyNode_timer_callback n w =
     (n, publish (td_pub n) m
           (sleep_for (fst (lognormal_distribution w)) (snd (lognormal_distribution w))))"
  by (simp add: TimerDependencyNode_timer_callback_def split: prod.splits)

lemma timer_callback_None:
  "td_msg n = None \<Longrightarrow>
   TimerDependencyNode_timer_callback n w =
     (n, sleep_for (fst (lognormal_distribution w)) (snd (lognormal_distribution w)))"
  by (simp add: TimerDependencyNode_timer_callback_def split: prod.splits)

lemma sub_callback_eq:
  "TimerDependencyNode_sub_callback msg n w =
     (n\<lparr>td_msg := Some msg\<rparr>,
      sleep_for (fst (lognormal_distribution w)) (snd (lognormal_distribution w)))"
  by (simp add: TimerDependencyNode_sub_callback_def split: prod.splits)

lemma timer_ticks_hold:
  "td_msg n = Some m \<Longrightarrow>
   fst (TimerDependencyNode_spin (replicate k TD_timer) (n, w)) = n \<and>
   published (trace (snd (TimerDependencyNode_spin (replicate k TD_timer) (n, w)))) =
     published (trace w) @ replicate k (td_pub n, m)"
proof (induction k arbitrary: w)
  case 0
  then show ?case by simp
next
  case (Suc k)
  then show ?case
    by (simp add: timer_callback_Some replicate_app_Cons_same)
qed

lemma timer_ticks_silent:
  "td_msg n = None \<Longrightarrow>
   fst (TimerDependencyNode_spin (replicate k TD_timer) (n, w)) = n \<and>
   published (trace (snd (TimerDependencyNode_spin (replicate k TD_timer) (n, w)))) =
     published (trace w)"
proof (induction k arbitrary: w)
  case 0
  then show ?case by simp
next
  case (Suc k)
  then show ?case
    by (simp add: timer_callback_None)
qed

lemma td_pub_dispatch: "td_pub (fst (TimerDependencyNode_dispatch e s)) = td_pub (fst s)"
  by (cases e; cases s)
     (simp_all add: sub_callback_eq TimerDependencyNode_timer_callback_def
        split: prod.splits option.splits)

lemma td_pub_spin: "td_pub (fst (TimerDependencyNode_spin es s)) = td_pub (fst s)"
  by (induction es arbitrary: s) (simp_all add: td_pub_dispatch)

lemma sub2_callback_Some:
  "sd_msg n = Some m \<Longrightarrow>
   SubDependencyNode_sub2_callback t n w =
     (n\<lparr>sd_msg := None\<rparr>, publish (sd_pub n) m
           (sleep_for (fst (lognormal_distribution w)) (snd (lognormal_distribution w))))"
  by (simp add: SubDependencyNode_sub2_callback_def split: prod.splits)

lemma sub2_callback_None:
  "sd_msg n = None \<Longrightarrow>
   SubDependencyNode_sub2_callback t n w =
     (n, sleep_for (fst (lognormal_distribution w)) (snd (lognormal_distribution w)))"
  by (simp add: SubDependencyNode_sub2_callback_def split: prod.splits)

lemma triggers_silent:
  "sd_msg n = None \<Longrightarrow>
   fst (SubDependencyNode_spin (map SD_sub2 ts) (n, w)) = n \<and>
   published (trace (snd (SubDependencyNode_spin (map SD_sub2 ts) (n, w)))) =
     published (trace w)"
proof (induction ts arbitrary: w)
  case Nil
  then show ?case by simp
next
  case (Cons t ts)
  then show ?case
    by (simp add: sub2_callback_None)
qed

lemma same_but_trigger_dispatch:
  "same_but_trigger e e' \<Longrightarrow> SubDependencyNode_dispatch e s = SubDependencyNode_dispatch e' s"
  by (cases e; cases e'; cases s) (simp_all add: SubDependencyNode_sub2_callback_def)

section \<open>TimerDependencyNode holds the last message\<close>

text \<open>
  C1. Take any run of a TimerDependencyNode in which a message has arrived: whatever
  happened before (\<open>es\<close>), the last message to arrive is \<open>m\<close>, and \<open>k\<close> timer ticks
  have fired since. Then the member holds \<open>m\<close>, and the next timer tick publishes \<open>m\<close>
  itself (so with the stamp of \<open>m\<close>) on the node's output topic, once, and leaves the
  node, the member included, as it was. Only the arrival of a message \<open>m'\<close> changes the
  member, to \<open>m'\<close>.
\<close>

theorem TimerDependencyNode_hold_last:
  assumes "TimerDependencyNode_spin (es @ TD_sub m # replicate k TD_timer) (n, w) = (n', w')"
  shows "td_msg n' = Some m
    \<and> fst (TimerDependencyNode_timer_callback n' w') = n'
    \<and> published (trace (snd (TimerDependencyNode_timer_callback n' w'))) =
        published (trace w') @ [(td_pub n, m)]
    \<and> td_msg (fst (TimerDependencyNode_sub_callback m' n' w')) = Some m'"
proof -
  obtain n1 w1 where s1: "TimerDependencyNode_spin es (n, w) = (n1, w1)"
    by (cases "TimerDependencyNode_spin es (n, w)")
  obtain w2 where s2: "TimerDependencyNode_sub_callback m n1 w1 = (n1\<lparr>td_msg := Some m\<rparr>, w2)"
    by (simp add: sub_callback_eq)
  have held: "td_msg (n1\<lparr>td_msg := Some m\<rparr>) = Some m" by simp
  have "(n', w') = TimerDependencyNode_spin (replicate k TD_timer) (n1\<lparr>td_msg := Some m\<rparr>, w2)"
    using assms s1 s2 by (simp add: TimerDependencyNode_spin_append)
  then have n': "n' = n1\<lparr>td_msg := Some m\<rparr>"
    using timer_ticks_hold [OF held, of k w2] by (metis fst_conv)
  have "td_pub n1 = td_pub n"
    using td_pub_spin [of es "(n, w)"] s1 by simp
  then have pub: "td_pub n' = td_pub n" using n' by simp
  have msg: "td_msg n' = Some m" using n' by simp
  show ?thesis
    using msg pub by (simp add: timer_callback_Some sub_callback_eq)
qed

theorem TimerDependencyNode_hold_last_witness:
  "TimerDependencyNode_spin ([TD_timer] @ TD_sub m0 # replicate 2 TD_timer) (td0, w0) =
     (td0\<lparr>td_msg := Some m0\<rparr>,
      w0\<lparr>used := 4, clock := 12000000,
         trace := [SleepFor 3, SleepFor 3, SleepFor 3, Publish ''/topic4'' m0,
                   SleepFor 3, Publish ''/topic4'' m0]\<rparr>)
   \<and> published (trace (snd (TimerDependencyNode_timer_callback (td0\<lparr>td_msg := Some m0\<rparr>)
        (w0\<lparr>used := 4, clock := 12000000,
         trace := [SleepFor 3, SleepFor 3, SleepFor 3, Publish ''/topic4'' m0,
                   SleepFor 3, Publish ''/topic4'' m0]\<rparr>)))) =
      [(''/topic4'', m0), (''/topic4'', m0), (''/topic4'', m0)]"
proof -
  have run: "TimerDependencyNode_spin ([TD_timer] @ TD_sub m0 # replicate 2 TD_timer) (td0, w0) =
     (td0\<lparr>td_msg := Some m0\<rparr>,
      w0\<lparr>used := 4, clock := 12000000,
         trace := [SleepFor 3, SleepFor 3, SleepFor 3, Publish ''/topic4'' m0,
                   SleepFor 3, Publish ''/topic4'' m0]\<rparr>)"
    by (simp add: numeral_2_eq_2 w0_def td0_def new_TimerDependencyNode_def
        TimerDependencyNode_timer_callback_def TimerDependencyNode_sub_callback_def
        sleep_for_def publish_def lognormal_distribution_example)
  show ?thesis
    using run TimerDependencyNode_hold_last [OF run]
    by (simp add: td0_def new_TimerDependencyNode_def w0_def)
qed

section \<open>SubDependencyNode publishes a stored message once\<close>

text \<open>
  C2. When the member of a SubDependencyNode holds a message \<open>m\<close>, the callback of the
  second subscription publishes \<open>m\<close> on the output topic and leaves the member null.
  Any further callbacks of the second subscription, with no message on the first
  subscription in between, publish nothing: \<open>m\<close> has been published exactly once.
\<close>

theorem SubDependencyNode_consume_once:
  assumes "sd_msg n = Some m"
  shows "fst (SubDependencyNode_sub2_callback t n w) = n\<lparr>sd_msg := None\<rparr>
    \<and> published (trace (snd (SubDependencyNode_sub2_callback t n w))) =
        published (trace w) @ [(sd_pub n, m)]
    \<and> fst (SubDependencyNode_spin (map SD_sub2 ts) (SubDependencyNode_sub2_callback t n w)) =
        n\<lparr>sd_msg := None\<rparr>
    \<and> published (trace (snd (SubDependencyNode_spin (map SD_sub2 ts)
          (SubDependencyNode_sub2_callback t n w)))) =
        published (trace w) @ [(sd_pub n, m)]"
proof -
  let ?w1 = "publish (sd_pub n) m
     (sleep_for (fst (lognormal_distribution w)) (snd (lognormal_distribution w)))"
  have first: "SubDependencyNode_sub2_callback t n w = (n\<lparr>sd_msg := None\<rparr>, ?w1)"
    using assms by (rule sub2_callback_Some)
  have empty: "sd_msg (n\<lparr>sd_msg := None\<rparr>) = None" by simp
  show ?thesis
    using triggers_silent [OF empty, of ts ?w1] by (simp add: first)
qed

theorem SubDependencyNode_consume_once_witness:
  "sd_msg (sd0\<lparr>sd_msg := Some m0\<rparr>) = Some m0
   \<and> published (trace (snd (SubDependencyNode_spin (map SD_sub2 [m2, m1])
          (SubDependencyNode_sub2_callback m1 (sd0\<lparr>sd_msg := Some m0\<rparr>) w0)))) =
        [(''/topic3'', m0)]"
  using SubDependencyNode_consume_once [of "sd0\<lparr>sd_msg := Some m0\<rparr>" m0 m1 w0 "[m2, m1]"]
  by (simp add: sd0_def new_SubDependencyNode_def w0_def)

section \<open>No stored message, no publication\<close>

text \<open>
  C5. A TimerDependencyNode whose member is null stays as it is through any number \<open>k\<close>
  of timer ticks, and nothing is published; a SubDependencyNode whose member is null
  stays as it is through any callbacks of its second subscription, and nothing is
  published. The callbacks return normally every time: they have no failing branch, the
  member being dereferenced only under the test that it is not null.
\<close>

theorem no_data_no_publish:
  assumes "td_msg n = None" and "sd_msg s = None"
  shows "fst (TimerDependencyNode_spin (replicate k TD_timer) (n, w)) = n
    \<and> published (trace (snd (TimerDependencyNode_spin (replicate k TD_timer) (n, w)))) =
        published (trace w)
    \<and> fst (SubDependencyNode_spin (map SD_sub2 ts) (s, w)) = s
    \<and> published (trace (snd (SubDependencyNode_spin (map SD_sub2 ts) (s, w)))) =
        published (trace w)"
  using timer_ticks_silent [OF assms(1), of k w] triggers_silent [OF assms(2), of ts w]
  by simp

theorem no_data_no_publish_witness:
  "td_msg td0 = None \<and> sd_msg sd0 = None
    \<and> published (trace (snd (TimerDependencyNode_spin (replicate 3 TD_timer) (td0, w0)))) = []
    \<and> published (trace (snd (SubDependencyNode_spin (map SD_sub2 [m1, m2]) (sd0, w0)))) = []"
  using no_data_no_publish [of td0 sd0 3 w0 "[m1, m2]"]
  by (simp add: td0_def sd0_def new_TimerDependencyNode_def new_SubDependencyNode_def w0_def)

section \<open>NoDependencyNode, SensorDummy and ActuatorDummy\<close>

text \<open>
  C6. The callback of a NoDependencyNode takes one draw from the sampler, sleeps for the
  sampled latency and then publishes on its output topic the message it received, the
  same in every field. It does nothing else, and the node is unchanged.
\<close>

theorem NoDependencyNode_relays_unchanged:
  "fst (NoDependencyNode_sub_callback msg n w) = n
   \<and> trace (snd (NoDependencyNode_sub_callback msg n w)) =
       trace w @ [SleepFor (fst (lognormal_distribution w)), Publish (nd_pub n) msg]
   \<and> used (snd (NoDependencyNode_sub_callback msg n w)) = Suc (used w)"
  by (simp add: NoDependencyNode_sub_callback_def lognormal_distribution_def sleep_for_def
      publish_def Let_def)

text \<open>
  C7. The timer callback of a SensorDummy publishes one message on its topic: a fresh
  message whose stamp is the clock reading at the tick. It takes no draw from the
  sampler and does not sleep: the count of draws, the clock and the sleeps in the trace
  are as before.
\<close>

theorem SensorDummy_publishes_now:
  "fst (SensorDummy_callback n w) = n
   \<and> trace (snd (SensorDummy_callback n w)) =
       trace w @ [Publish (se_pub n) (make_Image\<lparr>stamp := now w\<rparr>)]
   \<and> stamp (make_Image\<lparr>stamp := now w\<rparr>) = clock w
   \<and> used (snd (SensorDummy_callback n w)) = used w
   \<and> clock (snd (SensorDummy_callback n w)) = clock w
   \<and> sleeps (trace (snd (SensorDummy_callback n w))) = sleeps (trace w)"
  by (simp add: SensorDummy_callback_def publish_def now_def Let_def sleeps_append)

text \<open>
  C4 (as amended). The callback of an ActuatorDummy discards the message it receives and
  publishes nothing. It takes no draw from the sampler and does not sleep: node, trace,
  count of draws and clock are as before.
\<close>

theorem ActuatorDummy_discards:
  "fst (ActuatorDummy_sub_callback msg n w) = n
   \<and> trace (snd (ActuatorDummy_sub_callback msg n w)) = trace w
   \<and> published (trace (snd (ActuatorDummy_sub_callback msg n w))) = published (trace w)
   \<and> sleeps (trace (snd (ActuatorDummy_sub_callback msg n w))) = sleeps (trace w)
   \<and> used (snd (ActuatorDummy_sub_callback msg n w)) = used w
   \<and> clock (snd (ActuatorDummy_sub_callback msg n w)) = clock w"
  by (simp add: ActuatorDummy_sub_callback_def)

text \<open>
  C4 (as stated) fails: on the message \<open>m0\<close> in the world \<open>w0\<close> the callback of the
  actuator node of \<^verbatim>\<open>main\<close> neither takes a draw from the sampler nor sleeps for the
  latency the sampler would have returned.
\<close>

theorem ActuatorDummy_no_latency_counterexample:
  "\<not> (used (snd (ActuatorDummy_sub_callback m0
          (new_ActuatorDummy ''actuator_dummy_node'' ''/topic4'') w0)) = Suc (used w0)
      \<and> sleeps (trace (snd (ActuatorDummy_sub_callback m0
            (new_ActuatorDummy ''actuator_dummy_node'' ''/topic4'') w0))) =
        sleeps (trace w0) @ [fst (lognormal_distribution w0)])"
  by (simp add: ActuatorDummy_sub_callback_def w0_def)

section \<open>The trigger message does not reach the output\<close>

text \<open>
  C8. Two runs of a SubDependencyNode from the same node and world, over event sequences
  that differ at most in the messages arriving on the second subscription, end in the
  same node and the same world: the same messages published on the same topic in the
  same order, with the same contents.
\<close>

theorem SubDependencyNode_ignores_trigger_payload:
  assumes "list_all2 same_but_trigger es es'"
  shows "SubDependencyNode_spin es s = SubDependencyNode_spin es' s"
  using assms
proof (induction es es' arbitrary: s rule: list_all2_induct)
  case Nil
  then show ?case by simp
next
  case (Cons e es e' es')
  then show ?case by (simp add: same_but_trigger_dispatch)
qed

theorem SubDependencyNode_ignores_trigger_payload_witness:
  "list_all2 same_but_trigger [SD_sub1 m0, SD_sub2 m1, SD_sub2 m1] [SD_sub1 m0, SD_sub2 m2, SD_sub2 m0]
   \<and> m1 \<noteq> m2
   \<and> SubDependencyNode_spin [SD_sub1 m0, SD_sub2 m1, SD_sub2 m1] (sd0, w0) =
     SubDependencyNode_spin [SD_sub1 m0, SD_sub2 m2, SD_sub2 m0] (sd0, w0)
   \<and> published (trace (snd (SubDependencyNode_spin [SD_sub1 m0, SD_sub2 m2, SD_sub2 m0] (sd0, w0)))) =
       [(''/topic3'', m0)]"
proof -
  have rel: "list_all2 same_but_trigger [SD_sub1 m0, SD_sub2 m1, SD_sub2 m1]
      [SD_sub1 m0, SD_sub2 m2, SD_sub2 m0]"
    by simp
  have pub: "published (trace (snd (SubDependencyNode_spin [SD_sub1 m0, SD_sub2 m2, SD_sub2 m0] (sd0, w0)))) =
       [(''/topic3'', m0)]"
    by (simp add: sd0_def new_SubDependencyNode_def w0_def SubDependencyNode_sub1_callback_def
        SubDependencyNode_sub2_callback_def sleep_for_def publish_def
        lognormal_distribution_example)
  have "m1 \<noteq> m2" by (simp add: m1_def m2_def make_Image_def)
  then show ?thesis
    using rel pub SubDependencyNode_ignores_trigger_payload [OF rel, of "(sd0, w0)"] by simp
qed

section \<open>The topology assembled by main\<close>

text \<open>
  C9. \<^verbatim>\<open>main\<close> creates exactly six nodes. The sensor publishes \<open>/topic1\<close>, which only
  the filter reads; the filter publishes \<open>/topic2\<close>, the first input of the
  message-driven node, which publishes \<open>/topic3\<close>; the timer-driven node reads it and
  publishes \<open>/topic4\<close>, which the actuator reads. The drive node publishes \<open>/drive\<close>,
  the second input of the message-driven node. The timers are 100 ms for the
  timer-driven node and the drive node and 50 ms for the sensor, and no other node has a
  timer. When \<^verbatim>\<open>spin\<close> returns, \<^verbatim>\<open>main\<close> returns 0.
\<close>

theorem main_topology:
  "length nodes = 6
   \<and> map node_name nodes =
       [''actuator_dummy_node'', ''filter_node'', ''message_driven_node'',
        ''timer_driven_node'', ''sensor_dummy_node'', ''drive_node'']
   \<and> publishers_of ''/topic1'' nodes = [''sensor_dummy_node'']
   \<and> subscribers_of ''/topic1'' nodes = [''filter_node'']
   \<and> publishers_of ''/topic2'' nodes = [''filter_node'']
   \<and> subscribers_of ''/topic2'' nodes = [''message_driven_node'']
   \<and> publishers_of ''/topic3'' nodes = [''message_driven_node'']
   \<and> subscribers_of ''/topic3'' nodes = [''timer_driven_node'']
   \<and> publishers_of ''/topic4'' nodes = [''timer_driven_node'']
   \<and> subscribers_of ''/topic4'' nodes = [''actuator_dummy_node'']
   \<and> publishers_of ''/drive'' nodes = [''drive_node'']
   \<and> subscribers_of ''/drive'' nodes = [''message_driven_node'']
   \<and> subscriptions (nodes ! 2) = [''/topic2'', ''/drive'']
   \<and> timers_of nodes =
       [(''timer_driven_node'', 100), (''sensor_dummy_node'', 50), (''drive_node'', 100)]
   \<and> main True = Some 0"
  by (simp add: nodes_def publishers_of_def subscribers_of_def timers_of_def main_def
      new_ActuatorDummy_def new_NoDependencyNode_def new_SubDependencyNode_def
      new_TimerDependencyNode_def new_SensorDummy_def)

end
